theory Spec2Isabelle
  imports
    Main
    "HOL-Library.Word"
    "HOL-Library.AList"
    "HOL-Library.List_Lexorder"
    "HOL-Library.Char_ord"
begin

section \<open>The web server of cmd/web/main.go\<close>

text \<open>
  The program is one Go file: \<^verbatim>\<open>main\<close> and \<^verbatim>\<open>run\<close> (start-up), two route
  handlers registered in \<^verbatim>\<open>run\<close>, the middleware \<^verbatim>\<open>withNewRelic\<close>, and the relay
  \<^verbatim>\<open>contextLogger.log\<close> with its primitive \<^verbatim>\<open>contextLogger.send\<close>.

  Everything the program does to the outside (an HTTP call handed to a client, a line
  printed with the \<^verbatim>\<open>log\<close> package, a write to the response, a transaction started or
  ended on the agent, the listener) is appended to a trace of events, oldest first. What
  the outside answers (the clock, the outcome of a round trip, the process environment,
  the agent) is read from an environment record.
\<close>

subsection \<open>Data\<close>

type_synonym error = string

text \<open>
  A value stored in a \<^verbatim>\<open>map[string]interface{}\<close>. The program stores strings and one
  \<^verbatim>\<open>uint64\<close>; \<open>VUnsupported\<close> stands for a Go value that \<^verbatim>\<open>json.Marshal\<close> rejects
  (a channel, a function, a complex number), which the type \<^verbatim>\<open>interface{}\<close> admits.
\<close>

datatype Value = VString string | VUint64 "64 word" | VUnsupported

text \<open>
  \<^verbatim>\<open>type logBody map[string]interface{}\<close>: an association list read with \<open>map_of\<close> and
  written with \<open>AList.update\<close> (\<^verbatim>\<open>data[k] = v\<close>).
\<close>

type_synonym logBody = "(string \<times> Value) list"

record detailedLog =
  Logs :: "logBody list"

record contextLogger =
  apiKey :: string

text \<open>A JSON document, as \<^verbatim>\<open>json.Marshal\<close> produces it; an object lists its members in order.\<close>

datatype json =
    JString string
  | JNumber int
  | JArray "json list"
  | JObject "(string \<times> json) list"

text \<open>
  A transaction of the agent: the name it was started with and the linking metadata the
  agent reports for it (\<^verbatim>\<open>txn.GetLinkingMetadata()\<close>), as key-value pairs of strings.
\<close>

record Transaction =
  txnName :: string
  txnLinking :: "(string \<times> string) list"

text \<open>
  A \<^verbatim>\<open>context.Context\<close>: the nil interface value, or a context with the transaction
  stored in it, if any.
\<close>

datatype Context = NilContext | Ctx "Transaction option"

text \<open>The request the server hands to a handler: the fields the program reads.\<close>

record Request =
  Method :: string
  URLPath :: string
  reqCtx :: Context

text \<open>A request the program builds with \<^verbatim>\<open>http.NewRequestWithContext\<close>.\<close>

record ClientRequest =
  outMethod :: string
  outURL :: string
  outHeader :: "(string \<times> string) list"
  outBody :: "json option"
  outCtx :: Context

record Response =
  StatusCode :: int

text \<open>
  The two clients: the package variable \<^verbatim>\<open>httpClient\<close>, whose transport is the agent's
  round tripper, and \<^verbatim>\<open>http.DefaultClient\<close>.
\<close>

datatype Client = httpClient | DefaultClient

record ResponseWriter =
  rwHeader :: "(string \<times> string) list"
  rwStatus :: "int option"
  rwBody :: string

datatype Event =
    StartedTransaction Transaction
  | SetWebRequest Transaction
  | SetWebResponse Transaction
  | EndedTransaction Transaction
  | ClientDo Client ClientRequest
  | Printed string
  | WroteHeader int
  | Wrote string
  | Listening string

type_synonym Trace = "Event list"

record Application =
  linkingMetadata :: "string \<Rightarrow> (string \<times> string) list"

text \<open>
  What the outside answers: \<open>unixNano\<close> is the \<^verbatim>\<open>int64\<close> that \<^verbatim>\<open>time.Now().UnixNano()\<close>
  returns; \<open>roundTrip\<close> is the outcome of \<^verbatim>\<open>Do\<close> on a client, an error or a response
  (of any status); \<open>environ\<close> is the process environment; \<open>newApplication\<close> is the
  outcome of \<^verbatim>\<open>newrelic.NewApplication\<close> for a license key; \<open>listenAndServe\<close> is the
  error \<^verbatim>\<open>http.ListenAndServe\<close> returns for an address, \<open>None\<close> when it serves forever.
\<close>

record Env =
  unixNano :: "64 word"
  roundTrip :: "Client \<Rightarrow> ClientRequest \<Rightarrow> error + Response"
  environ :: "string \<rightharpoonup> string"
  newApplication :: "string \<Rightarrow> error + Application"
  listenAndServe :: "string \<Rightarrow> error option"

subsection \<open>Formatting\<close>

text \<open>The verb \<^verbatim>\<open>%d\<close> of \<^verbatim>\<open>fmt\<close> on an \<^verbatim>\<open>int\<close>: decimal digits, a minus sign first if negative.\<close>

fun showNat :: "nat \<Rightarrow> string" where
  "showNat n =
     (if n < 10 then [char_of (48 + n)]
      else showNat (n div 10) @ [char_of (48 + n mod 10)])"

declare showNat.simps [simp del]

definition showInt :: "int \<Rightarrow> string" where
  "showInt i = (if i < 0 then ''-'' @ showNat (nat (- i)) else showNat (nat i))"

definition newline :: string where
  "newline = [CHR 0x0A]"

definition quote :: string where
  "quote = [CHR 0x22]"

subsection \<open>The standard library and the agent, as far as the program uses them\<close>

text \<open>\<^verbatim>\<open>log.Printf\<close>: one line on standard error.\<close>

definition Printf :: "string \<Rightarrow> Trace \<Rightarrow> Trace" where
  "Printf line tr = tr @ [Printed line]"

text \<open>\<^verbatim>\<open>os.Getenv\<close>: the empty string for a variable that is not set.\<close>

definition Getenv :: "Env \<Rightarrow> string \<Rightarrow> string" where
  "Getenv env k = (case environ env k of None \<Rightarrow> '''' | Some v \<Rightarrow> v)"

text \<open>
  \<^verbatim>\<open>http.NewRequestWithContext\<close> fails on an invalid method, on a nil context and on a
  URL that does not parse. The program passes the constants \<^verbatim>\<open>GET\<close> and \<^verbatim>\<open>POST\<close> and
  two constant URLs that parse, which leaves the nil context.
\<close>

definition NewRequestWithContext ::
  "Context \<Rightarrow> string \<Rightarrow> string \<Rightarrow> json option \<Rightarrow> error + ClientRequest" where
  "NewRequestWithContext ctx method url body =
     (if ctx = NilContext then Inl ''net/http: nil Context''
      else Inr \<lparr>outMethod = method, outURL = url, outHeader = [], outBody = body,
                outCtx = ctx\<rparr>)"

text \<open>\<^verbatim>\<open>req.Header.Set\<close>; header names are kept as the program writes them.\<close>

definition HeaderSet :: "string \<Rightarrow> string \<Rightarrow> ClientRequest \<Rightarrow> ClientRequest" where
  "HeaderSet k v req = req\<lparr>outHeader := AList.update k v (outHeader req)\<rparr>"

text \<open>\<^verbatim>\<open>Do\<close> on a client: the call is recorded, the environment gives its outcome.\<close>

definition Do :: "Env \<Rightarrow> Client \<Rightarrow> ClientRequest \<Rightarrow> Trace \<Rightarrow> (error + Response) \<times> Trace" where
  "Do env c req tr = (roundTrip env c req, tr @ [ClientDo c req])"

text \<open>
  A Go string is a sequence of bytes. \<^verbatim>\<open>json.Marshal\<close> writes a string rune by rune,
  as \<^verbatim>\<open>utf8.DecodeRuneInString\<close> reads it: a byte below 0x80 is a rune of size 1; a
  lead byte 0xC2 to 0xDF, 0xE0 to 0xEF or 0xF0 to 0xF4 starts a rune of size 2, 3 or 4
  when the bytes after it are continuation bytes (0x80 to 0xBF, with the narrower
  second byte after 0xE0, 0xED, 0xF0 and 0xF4); every other byte is invalid, and is
  written as the replacement character U+FFFD, one for each invalid byte.
\<close>

definition inRange :: "nat \<Rightarrow> nat \<Rightarrow> char \<Rightarrow> bool" where
  "inRange lo hi c = (lo \<le> of_char c \<and> (of_char c :: nat) \<le> hi)"

text \<open>The size of the rune at the head of a string, 0 when the first byte is invalid.\<close>

fun runeSize :: "string \<Rightarrow> nat" where
  "runeSize [] = 0"
| "runeSize (b # bs) =
     (let n = (of_char b :: nat)
      in if n < 0x80 then 1
         else if 0xC2 \<le> n \<and> n \<le> 0xDF then
           (case bs of
              b1 # _ \<Rightarrow> if inRange 0x80 0xBF b1 then 2 else 0
            | _ \<Rightarrow> 0)
         else if 0xE0 \<le> n \<and> n \<le> 0xEF then
           (case bs of
              b1 # b2 # _ \<Rightarrow>
                if inRange (if n = 0xE0 then 0xA0 else 0x80) (if n = 0xED then 0x9F else 0xBF) b1
                   \<and> inRange 0x80 0xBF b2
                then 3 else 0
            | _ \<Rightarrow> 0)
         else if 0xF0 \<le> n \<and> n \<le> 0xF4 then
           (case bs of
              b1 # b2 # b3 # _ \<Rightarrow>
                if inRange (if n = 0xF0 then 0x90 else 0x80) (if n = 0xF4 then 0x8F else 0xBF) b1
                   \<and> inRange 0x80 0xBF b2 \<and> inRange 0x80 0xBF b3
                then 4 else 0
            | _ \<Rightarrow> 0)
         else 0)"

declare runeSize.simps [simp del]

definition replacementChar :: string where
  "replacementChar = [CHR 0xEF, CHR 0xBF, CHR 0xBD]"

text \<open>
  The string as the document holds it; the first argument counts the bytes still to
  copy of the rune being written.
\<close>

fun replaceFrom :: "nat \<Rightarrow> string \<Rightarrow> string" where
  "replaceFrom k [] = []"
| "replaceFrom (Suc k) (b # bs) = b # replaceFrom k bs"
| "replaceFrom 0 (b # bs) =
     (case runeSize (b # bs) of
        0 \<Rightarrow> replacementChar @ replaceFrom 0 bs
      | Suc k \<Rightarrow> b # replaceFrom k bs)"

definition replaceInvalid :: "string \<Rightarrow> string" where
  "replaceInvalid s = replaceFrom 0 s"



text \<open>
  \<^verbatim>\<open>json.Marshal\<close> on \<^verbatim>\<open>[]detailedLog\<close>: a slice is an array, the struct is an object
  with the one member \<^verbatim>\<open>logs\<close> of its tag, a map is an object with its keys sorted, a
  string (a key too) is the string with its invalid bytes replaced, a \<^verbatim>\<open>uint64\<close> is a
  number. The document is kept as a value: its text (the escapes) says the same.
\<close>

fun marshalValue :: "Value \<Rightarrow> error + json" where
  "marshalValue (VString s) = Inr (JString (replaceInvalid s))"
| "marshalValue (VUint64 n) = Inr (JNumber (uint n))"
| "marshalValue VUnsupported = Inl ''json: unsupported type''"

fun marshalMembers :: "(string \<times> Value) list \<Rightarrow> error + (string \<times> json) list" where
  "marshalMembers [] = Inr []"
| "marshalMembers ((k, v) # kvs) =
     (case marshalValue v of
        Inl e \<Rightarrow> Inl e
      | Inr j \<Rightarrow>
          (case marshalMembers kvs of
             Inl e \<Rightarrow> Inl e
           | Inr js \<Rightarrow> Inr ((replaceInvalid k, j) # js)))"

definition marshalMap :: "logBody \<Rightarrow> error + json" where
  "marshalMap m =
     (case marshalMembers (sort_key fst m) of
        Inl e \<Rightarrow> Inl e
      | Inr js \<Rightarrow> Inr (JObject js))"

fun marshalMaps :: "logBody list \<Rightarrow> error + json list" where
  "marshalMaps [] = Inr []"
| "marshalMaps (m # ms) =
     (case marshalMap m of
        Inl e \<Rightarrow> Inl e
      | Inr j \<Rightarrow>
          (case marshalMaps ms of
             Inl e \<Rightarrow> Inl e
           | Inr js \<Rightarrow> Inr (j # js)))"

definition marshalDetailedLog :: "detailedLog \<Rightarrow> error + json" where
  "marshalDetailedLog d =
     (case marshalMaps (Logs d) of
        Inl e \<Rightarrow> Inl e
      | Inr js \<Rightarrow> Inr (JObject [(''logs'', JArray js)]))"

fun marshalDetailedLogs :: "detailedLog list \<Rightarrow> error + json list" where
  "marshalDetailedLogs [] = Inr []"
| "marshalDetailedLogs (d # ds) =
     (case marshalDetailedLog d of
        Inl e \<Rightarrow> Inl e
      | Inr j \<Rightarrow>
          (case marshalDetailedLogs ds of
             Inl e \<Rightarrow> Inl e
           | Inr js \<Rightarrow> Inr (j # js)))"

definition Marshal :: "detailedLog list \<Rightarrow> error + json" where
  "Marshal ds =
     (case marshalDetailedLogs ds of
        Inl e \<Rightarrow> Inl e
      | Inr js \<Rightarrow> Inr (JArray js))"

text \<open>
  \<^verbatim>\<open>newrelic.FromContext\<close>: the transaction stored in the context, nil for a nil context
  and for a context that stores none.
\<close>

fun FromContext :: "Context \<Rightarrow> Transaction option" where
  "FromContext NilContext = None"
| "FromContext (Ctx t) = t"

definition GetLinkingMetadata :: "Transaction \<Rightarrow> (string \<times> string) list" where
  "GetLinkingMetadata txn = txnLinking txn"

text \<open>
  Modelled from the spec: the package \<^verbatim>\<open>logcontext\<close> is not in the source tree. The
  spec names a timestamp field and a message field of the record, two different keys.
  This is the key of the timestamp field.
\<close>

definition KeyTimestamp :: string where
  "KeyTimestamp = ''timestamp''"

text \<open>
  Modelled from the spec: the key of the message field, a constant of the same package.
\<close>

definition KeyMessage :: string where
  "KeyMessage = ''message''"

text \<open>
  Modelled from the spec: \<^verbatim>\<open>logcontext.AddLinkingMetadata\<close> is not in the source tree.
  The spec has it copy all linking-metadata pairs of the transaction into the record.
\<close>

definition AddLinkingMetadata :: "logBody \<Rightarrow> (string \<times> string) list \<Rightarrow> logBody" where
  "AddLinkingMetadata data md = foldl (\<lambda>m (k, v). AList.update k (VString v) m) data md"

text \<open>\<^verbatim>\<open>app.StartTransaction\<close>, \<^verbatim>\<open>txn.End\<close> and the two setters of the transaction.\<close>

definition StartTransaction :: "Application \<Rightarrow> string \<Rightarrow> Trace \<Rightarrow> Transaction \<times> Trace" where
  "StartTransaction app name tr =
     (let txn = \<lparr>txnName = name, txnLinking = linkingMetadata app name\<rparr>
      in (txn, tr @ [StartedTransaction txn]))"

definition End :: "Transaction \<Rightarrow> Trace \<Rightarrow> Trace" where
  "End txn tr = tr @ [EndedTransaction txn]"

definition SetWebRequestHTTP :: "Transaction \<Rightarrow> Request \<Rightarrow> Trace \<Rightarrow> Trace" where
  "SetWebRequestHTTP txn r tr = tr @ [SetWebRequest txn]"

definition SetWebResponseWriter :: "Transaction \<Rightarrow> ResponseWriter \<Rightarrow> Trace \<Rightarrow> Trace" where
  "SetWebResponseWriter txn w tr = tr @ [SetWebResponse txn]"

text \<open>\<^verbatim>\<open>r.Context()\<close> is never nil: a request without a context has the background one.\<close>

definition RequestContext :: "Request \<Rightarrow> Context" where
  "RequestContext r = (case reqCtx r of NilContext \<Rightarrow> Ctx None | Ctx t \<Rightarrow> Ctx t)"

definition RequestWithTransactionContext :: "Request \<Rightarrow> Transaction \<Rightarrow> Request" where
  "RequestWithTransactionContext r txn = r\<lparr>reqCtx := Ctx (Some txn)\<rparr>"

text \<open>
  The response writer of \<^verbatim>\<open>net/http\<close>: the first \<^verbatim>\<open>WriteHeader\<close> fixes the status, a
  later one is ignored; a \<^verbatim>\<open>Write\<close> before any \<^verbatim>\<open>WriteHeader\<close> sends status 200 first.
\<close>

definition newResponseWriter :: ResponseWriter where
  "newResponseWriter = \<lparr>rwHeader = [], rwStatus = None, rwBody = ''''\<rparr>"

definition WriteHeader :: "int \<Rightarrow> ResponseWriter \<Rightarrow> Trace \<Rightarrow> ResponseWriter \<times> Trace" where
  "WriteHeader code w tr =
     (if rwStatus w = None then (w\<lparr>rwStatus := Some code\<rparr>, tr @ [WroteHeader code])
      else (w, tr))"

definition Write :: "string \<Rightarrow> ResponseWriter \<Rightarrow> Trace \<Rightarrow> ResponseWriter \<times> Trace" where
  "Write bytes w tr =
     (let (w1, tr1) = (if rwStatus w = None then WriteHeader 200 w tr else (w, tr))
      in (w1\<lparr>rwBody := rwBody w1 @ bytes\<rparr>, tr1 @ [Wrote bytes]))"

definition Fprintln :: "string \<Rightarrow> ResponseWriter \<Rightarrow> Trace \<Rightarrow> ResponseWriter \<times> Trace" where
  "Fprintln s w tr = Write (s @ newline) w tr"

definition SetResponseHeader :: "string \<Rightarrow> string \<Rightarrow> ResponseWriter \<Rightarrow> ResponseWriter" where
  "SetResponseHeader k v w = w\<lparr>rwHeader := AList.update k v (rwHeader w)\<rparr>"

text \<open>\<^verbatim>\<open>http.Error\<close>: plain-text headers, the status, the message and a newline.\<close>

definition Error :: "string \<Rightarrow> int \<Rightarrow> ResponseWriter \<Rightarrow> Trace \<Rightarrow> ResponseWriter \<times> Trace" where
  "Error msg code w tr =
     (let w1 = w\<lparr>rwHeader := AList.delete ''Content-Length'' (rwHeader w)\<rparr>;
          w2 = SetResponseHeader ''Content-Type'' ''text/plain; charset=utf-8'' w1;
          w3 = SetResponseHeader ''X-Content-Type-Options'' ''nosniff'' w2;
          (w4, tr4) = WriteHeader code w3 tr
      in Fprintln msg w4 tr4)"

text \<open>\<^verbatim>\<open>json.NewEncoder(w).Encode\<close> on \<^verbatim>\<open>struct{ Status int }\<close>: the object and a newline.\<close>

definition EncodeStatus :: "int \<Rightarrow> ResponseWriter \<Rightarrow> Trace \<Rightarrow> ResponseWriter \<times> Trace" where
  "EncodeStatus n w tr =
     Write (''{'' @ quote @ ''Status'' @ quote @ '':'' @ showInt n @ ''}'' @ newline) w tr"

subsection \<open>Below \<^verbatim>\<open>Do\<close>: the round trips of a client\<close>

text \<open>
  \<^verbatim>\<open>Do\<close> hands the request to the transport of the client and follows redirects; both
  clients of the program have the default policy. After a response 301, 302 or 303
  the next request is a \<^verbatim>\<open>GET\<close> (a \<^verbatim>\<open>HEAD\<close> stays one) without the body; after 307 or
  308 it has the same method and the body of the first request again. (The requests of
  the program can give their body again: it is a \<^verbatim>\<open>strings.Reader\<close> or absent.) A
  redirect without a \<^verbatim>\<open>Location\<close> ends with that response, one whose \<^verbatim>\<open>Location\<close>
  does not parse ends with an error, and so does the redirect after the tenth request.
  Of a request on its way the method, the URL and the body are kept; of a response the
  status and where its \<^verbatim>\<open>Location\<close> points.
\<close>

datatype Location = NoLocation | BadLocation | Target string

record TransportRequest =
  tMethod :: string
  tURL :: string
  tBody :: "json option"

record TransportResponse =
  tStatus :: int
  tLocation :: Location

type_synonym Transport = "Client \<Rightarrow> TransportRequest \<Rightarrow> error + TransportResponse"

text \<open>\<^verbatim>\<open>redirectBehavior\<close>: the method of the next request, whether to go on, whether with the body.\<close>

definition redirectBehavior :: "string \<Rightarrow> int \<Rightarrow> string \<times> bool \<times> bool" where
  "redirectBehavior reqMethod status =
     (if status = 301 \<or> status = 302 \<or> status = 303 then
        (if reqMethod \<noteq> ''GET'' \<and> reqMethod \<noteq> ''HEAD'' then ''GET'' else reqMethod, True, False)
      else if status = 307 \<or> status = 308 then (reqMethod, True, True)
      else ([], False, False))"

text \<open>
  The loop of \<^verbatim>\<open>Client.do\<close>: the first argument is the number of requests the policy
  still allows, the third the body of the first request. The result is the outcome of
  \<^verbatim>\<open>Do\<close> and the requests handed to the transport, in order.
\<close>

fun follow ::
  "nat \<Rightarrow> (TransportRequest \<Rightarrow> error + TransportResponse) \<Rightarrow> json option \<Rightarrow> TransportRequest
     \<Rightarrow> (error + Response) \<times> TransportRequest list" where
  "follow 0 rt body req = (Inl ''stopped after 10 redirects'', [])"
| "follow (Suc n) rt body req =
     (case rt req of
        Inl err \<Rightarrow> (Inl err, [req])
      | Inr resp \<Rightarrow>
          (case redirectBehavior (tMethod req) (tStatus resp) of
             (redirectMethod, shouldRedirect, includeBody) \<Rightarrow>
               if \<not> shouldRedirect then (Inr \<lparr>StatusCode = tStatus resp\<rparr>, [req])
               else
                 (case tLocation resp of
                    NoLocation \<Rightarrow> (Inr \<lparr>StatusCode = tStatus resp\<rparr>, [req])
                  | BadLocation \<Rightarrow> (Inl ''failed to parse Location header'', [req])
                  | Target u \<Rightarrow>
                      (case follow n rt body
                              \<lparr>tMethod = redirectMethod, tURL = u,
                               tBody = (if includeBody then body else None)\<rparr> of
                         (out, reqs) \<Rightarrow> (out, req # reqs)))))"

definition clientDo ::
  "Transport \<Rightarrow> Client \<Rightarrow> ClientRequest \<Rightarrow> (error + Response) \<times> TransportRequest list" where
  "clientDo t c req =
     follow 10 (t c) (outBody req)
       \<lparr>tMethod = outMethod req, tURL = outURL req, tBody = outBody req\<rparr>"

text \<open>The environment in which the outcome of every \<^verbatim>\<open>Do\<close> is the one of the client over a transport.\<close>

definition overTransport :: "Transport \<Rightarrow> Env \<Rightarrow> Env" where
  "overTransport t env = env\<lparr>roundTrip := (\<lambda>c req. fst (clientDo t c req))\<rparr>"

text \<open>The requests handed to the transport for the calls of \<^verbatim>\<open>Do\<close> in a trace.\<close>

fun roundTrips :: "Transport \<Rightarrow> Trace \<Rightarrow> (Client \<times> TransportRequest) list" where
  "roundTrips t [] = []"
| "roundTrips t (ClientDo c req # tr) = map (Pair c) (snd (clientDo t c req)) @ roundTrips t tr"
| "roundTrips t (e # tr) = roundTrips t tr"

subsection \<open>The relay: \<^verbatim>\<open>contextLogger.send\<close> and \<^verbatim>\<open>contextLogger.log\<close>\<close>

definition send ::
  "contextLogger \<Rightarrow> Env \<Rightarrow> Context \<Rightarrow> logBody list \<Rightarrow> Trace \<Rightarrow> error option \<times> Trace" where
  "send l env ctx datas tr =
     (case Marshal [\<lparr>Logs = datas\<rparr>] of
        Inl err \<Rightarrow> (Some (''json.Marshal: '' @ err), tr)
      | Inr j \<Rightarrow>
          (case NewRequestWithContext ctx ''POST'' ''https://log-api.newrelic.com/log/v1''
                  (Some j) of
             Inl err \<Rightarrow> (Some (''NewRequest: '' @ err), tr)
           | Inr req0 \<Rightarrow>
               (let req1 = HeaderSet ''x-license-key'' (apiKey l) req0;
                    req = HeaderSet ''content-type'' ''application/json'' req1
                in case Do env DefaultClient req tr of
                     (Inl err, tr1) \<Rightarrow> (Some (''Do: '' @ err), tr1)
                   | (Inr resp, tr1) \<Rightarrow>
                       (None, Printf (''post log status='' @ showInt (StatusCode resp)) tr1))))"

text \<open>Lines 110 to 114 of \<^verbatim>\<open>log\<close>: the record built for a transaction, a clock and a message.\<close>

definition logData :: "Transaction \<Rightarrow> 64 word \<Rightarrow> string \<Rightarrow> logBody" where
  "logData txn now msg =
     (let data0 = [];
          data1 = AddLinkingMetadata data0 (GetLinkingMetadata txn);
          data2 = AList.update KeyTimestamp (VUint64 (now div (1000 * 1000))) data1;
          data3 = AList.update KeyMessage (VString msg) data2
      in data3)"

definition log :: "contextLogger \<Rightarrow> Env \<Rightarrow> Context \<Rightarrow> string \<Rightarrow> Trace \<Rightarrow> Trace" where
  "log l env ctx msg tr =
     (case FromContext ctx of
        None \<Rightarrow> tr
      | Some txn \<Rightarrow>
          (case send l env ctx [logData txn (unixNano env) msg] tr of
             (Some err, tr1) \<Rightarrow> Printf (''! error='' @ err) tr1
           | (None, tr1) \<Rightarrow> tr1))"

subsection \<open>The middleware \<^verbatim>\<open>withNewRelic\<close>\<close>

text \<open>
  A handler returns or panics; either way it has written to the response and left a
  trace. The deferred \<^verbatim>\<open>txn.End()\<close> runs on both exits, and a panic goes on to the caller.
\<close>

datatype Outcome = Returned | Panicked string

type_synonym Handler =
  "ResponseWriter \<Rightarrow> Request \<Rightarrow> Trace \<Rightarrow> Outcome \<times> ResponseWriter \<times> Trace"

definition withNewRelic :: "Application \<Rightarrow> Handler \<Rightarrow> Handler" where
  "withNewRelic app next w r tr =
     (let (txn, tr1) = StartTransaction app (Method r @ '' '' @ URLPath r) tr;
          r1 = RequestWithTransactionContext r txn;
          tr2 = SetWebRequestHTTP txn r1 tr1;
          tr3 = SetWebResponseWriter txn w tr2;
          (out, w1, tr4) = next w r1 tr3
      in (out, w1, End txn tr4))"

subsection \<open>The route handlers\<close>

definition rootHandler :: Handler where
  "rootHandler w r tr = (let (w1, tr1) = Fprintln ''OK'' w tr in (Returned, w1, tr1))"

text \<open>Lines 57 to 69 of the handler of \<^verbatim>\<open>/fetch\<close>, for the context read on line 56.\<close>

definition fetchWith ::
  "contextLogger \<Rightarrow> Env \<Rightarrow> Context \<Rightarrow> ResponseWriter \<Rightarrow> Trace \<Rightarrow> ResponseWriter \<times> Trace" where
  "fetchWith cl env ctx w tr =
     (case NewRequestWithContext ctx ''GET'' ''https://aereal.org/'' None of
        Inl err \<Rightarrow> Error (''cannot build request: '' @ err) 500 w tr
      | Inr req \<Rightarrow>
          (case Do env httpClient req tr of
             (Inl err, tr1) \<Rightarrow> Error (''failed to send request: '' @ err) 500 w tr1
           | (Inr resp, tr1) \<Rightarrow>
               (let tr2 = log cl env ctx (''done fetch: status='' @ showInt (StatusCode resp)) tr1;
                    w1 = SetResponseHeader ''content-type'' ''application/json'' w
                in EncodeStatus (StatusCode resp) w1 tr2)))"

definition fetchHandler :: "contextLogger \<Rightarrow> Env \<Rightarrow> Handler" where
  "fetchHandler cl env w r tr =
     (let ctx = RequestContext r;
          (w1, tr1) = fetchWith cl env ctx w tr
      in (Returned, w1, tr1))"

subsection \<open>Start-up: \<^verbatim>\<open>run\<close> and \<^verbatim>\<open>main\<close>\<close>

text \<open>
  \<^verbatim>\<open>run\<close> returns an error, returns nil, or serves forever. Serving itself is
  \<^verbatim>\<open>net/http\<close> calling the handlers above, one call for each request.
\<close>

datatype 'a Run = Done 'a | Forever

definition ErrServerClosed :: error where
  "ErrServerClosed = ''http: Server closed''"

definition ListenAndServe :: "Env \<Rightarrow> string \<Rightarrow> Trace \<Rightarrow> error Run \<times> Trace" where
  "ListenAndServe env addr tr =
     (case listenAndServe env addr of
        None \<Rightarrow> (Forever, tr @ [Listening addr])
      | Some err \<Rightarrow> (Done err, tr @ [Listening addr]))"

definition run :: "Env \<Rightarrow> Trace \<Rightarrow> error option Run \<times> Trace" where
  "run env tr =
     (let nrLicense = Getenv env ''NEWRELIC_LICENSE_KEY''
      in if nrLicense = '''' then (Done (Some ''NEWRELIC_LICENSE_KEY required''), tr)
         else
           (case newApplication env nrLicense of
              Inl err \<Rightarrow> (Done (Some (''cannot build new relic app: '' @ err)), tr)
            | Inr app \<Rightarrow>
                (let tr1 = Printf ''start server'' tr
                 in case ListenAndServe env '':8000'' tr1 of
                      (Forever, tr2) \<Rightarrow> (Forever, tr2)
                    | (Done err, tr2) \<Rightarrow>
                        (if err \<noteq> ErrServerClosed then (Done (Some err), tr2)
                         else (Done None, tr2)))))"

text \<open>\<^verbatim>\<open>main\<close>: \<^verbatim>\<open>log.Fatal\<close> prints the error and exits with status 1; otherwise status 0.\<close>

definition main :: "Env \<Rightarrow> Trace \<Rightarrow> int Run \<times> Trace" where
  "main env tr =
     (case run env tr of
        (Forever, tr1) \<Rightarrow> (Forever, tr1)
      | (Done (Some err), tr1) \<Rightarrow> (Done 1, Printf err tr1)
      | (Done None, tr1) \<Rightarrow> (Done 0, tr1))"

subsection \<open>Reading a trace\<close>

text \<open>The transactions a trace has started and not ended, latest first.\<close>

fun noteTransaction :: "Transaction list \<Rightarrow> Event \<Rightarrow> Transaction list" where
  "noteTransaction ts (StartedTransaction t) = t # ts"
| "noteTransaction ts (EndedTransaction t) = remove1 t ts"
| "noteTransaction ts _ = ts"

definition openTransactions :: "Trace \<Rightarrow> Transaction list" where
  "openTransactions tr = foldl noteTransaction [] tr"

subsection \<open>Sample inputs\<close>

text \<open>
  An agent that links every transaction to one trace; an environment where the fetch
  answers 200 and the log API answers 403; one where no round trip succeeds.
\<close>

definition exampleTxn :: Transaction where
  "exampleTxn = \<lparr>txnName = ''GET /fetch'', txnLinking = [(''trace.id'', ''4bf92f35'')]\<rparr>"

definition exampleApp :: Application where
  "exampleApp = \<lparr>linkingMetadata = (\<lambda>name. [(''trace.id'', ''4bf92f35'')])\<rparr>"

definition exampleEnv :: Env where
  "exampleEnv =
     \<lparr>unixNano = 1700000000123456789,
      roundTrip = (\<lambda>c req. if c = httpClient then Inr \<lparr>StatusCode = 200\<rparr>
                              else Inr \<lparr>StatusCode = 403\<rparr>),
      environ = Map.empty,
      newApplication = (\<lambda>key. Inr exampleApp),
      listenAndServe = (\<lambda>addr. None)\<rparr>"

definition downEnv :: Env where
  "downEnv = exampleEnv\<lparr>roundTrip := (\<lambda>c req. Inl ''dial tcp: i/o timeout'')\<rparr>"

text \<open>
  A transport where every request is answered 202, and one where the log API answers
  307 and points to another host, which answers 202.
\<close>

definition plainTransport :: Transport where
  "plainTransport c req = Inr \<lparr>tStatus = 202, tLocation = NoLocation\<rparr>"



definition forbiddenRequest :: ClientRequest where
  "forbiddenRequest =
     \<lparr>outMethod = ''POST'',
      outURL = ''https://log-api.newrelic.com/log/v1'',
      outHeader = [(''x-license-key'', ''key''), (''content-type'', ''application/json'')],
      outBody = Some (JArray [JObject [(''logs'', JArray [JObject
         [(''message'', JString ''done'')]])]]),
      outCtx = Ctx None\<rparr>"

text \<open>
  A handler that panics; the two requests as the server hands them to the router; the
  transaction the middleware starts for the first; the second as the middleware passes
  it on, with a transaction in its context.
\<close>

definition panickingHandler :: Handler where
  "panickingHandler w r tr = (Panicked ''runtime error: index out of range'', w, tr)"

definition rootRequest :: Request where
  "rootRequest = \<lparr>Method = ''GET'', URLPath = ''/'', reqCtx = NilContext\<rparr>"

definition rootTxn :: Transaction where
  "rootTxn = \<lparr>txnName = ''GET /'', txnLinking = [(''trace.id'', ''4bf92f35'')]\<rparr>"

definition fetchRequest :: Request where
  "fetchRequest = \<lparr>Method = ''GET'', URLPath = ''/fetch'', reqCtx = NilContext\<rparr>"

definition tracedFetchRequest :: Request where
  "tracedFetchRequest = RequestWithTransactionContext fetchRequest exampleTxn"

section \<open>Properties\<close>

subsection \<open>Marshalling a record\<close>




subsection \<open>Strings in a document\<close>














lemma logData_message: "map_of (logData txn now msg) KeyMessage = Some (VString msg)"
  by (simp add: logData_def Let_def update_conv')

lemma logData_timestamp:
  "map_of (logData txn now msg) KeyTimestamp = Some (VUint64 (now div (1000 * 1000)))"
  by (simp add: logData_def Let_def update_conv' KeyTimestamp_def KeyMessage_def)


subsection \<open>The round trips of one call\<close>




subsection \<open>The relay\<close>

text \<open>
  C1: when the context carries no transaction, \<^verbatim>\<open>log\<close> returns with the trace as it
  found it: no record is sent, no client is called, nothing is printed.
\<close>

theorem log_without_transaction:
  "FromContext ctx = None \<Longrightarrow> log l env ctx msg tr = tr"
  by (simp add: log_def)

theorem log_without_transaction_witness:
  "FromContext (Ctx None) = None
     \<and> log \<lparr>apiKey = ''key''\<rparr> exampleEnv (Ctx None) ''done fetch: status=200'' [] = []"
  using log_without_transaction [of "Ctx None" "\<lparr>apiKey = ''key''\<rparr>" exampleEnv
      "''done fetch: status=200''" "[]"]
  by simp



text \<open>The same call, evaluated with its round trips: one POST, answered 202.\<close>

lemma log_example:
  "log \<lparr>apiKey = ''key''\<rparr> (overTransport plainTransport exampleEnv)
       (Ctx (Some exampleTxn)) ''done'' [] =
     [ClientDo DefaultClient
        \<lparr>outMethod = ''POST'',
         outURL = ''https://log-api.newrelic.com/log/v1'',
         outHeader = [(''x-license-key'', ''key''), (''content-type'', ''application/json'')],
         outBody = Some (JArray [JObject [(''logs'', JArray [JObject
            [(''message'', JString ''done''),
             (''timestamp'', JNumber 1700000000123),
             (''trace.id'', JString ''4bf92f35'')]])]]),
         outCtx = Ctx (Some exampleTxn)\<rparr>,
      Printed ''post log status=202'']
   \<and> roundTrips plainTransport
         (log \<lparr>apiKey = ''key''\<rparr> (overTransport plainTransport exampleEnv)
              (Ctx (Some exampleTxn)) ''done'' []) =
     [(DefaultClient,
       \<lparr>tMethod = ''POST'',
        tURL = ''https://log-api.newrelic.com/log/v1'',
        tBody = Some (JArray [JObject [(''logs'', JArray [JObject
            [(''message'', JString ''done''),
             (''timestamp'', JNumber 1700000000123),
             (''trace.id'', JString ''4bf92f35'')]])]])\<rparr>)]"
  by code_simp




text \<open>The two calls of the witness, evaluated: a 403 from the log API, and a nil context.\<close>

lemma send_example:
  "send \<lparr>apiKey = ''key''\<rparr> exampleEnv (Ctx None) [[(KeyMessage, VString ''done'')]] []
     = (None, [ClientDo DefaultClient forbiddenRequest, Printed ''post log status=403''])"
  by code_simp

lemma send_example_nil:
  "send \<lparr>apiKey = ''key''\<rparr> exampleEnv NilContext [[(KeyMessage, VString ''done'')]] []
     = (Some ''NewRequest: net/http: nil Context'', [])"
  by code_simp

subsection \<open>The record\<close>

lemma uint_div_million:
  "uint ((now :: 64 word) div 1000000) = uint now div 1000000"
  by (simp add: uint_div)

lemma sint_nonneg_uint:
  assumes "0 \<le> sint (w :: 64 word)"
  shows "sint w = uint w"
proof -
  have "sint w < 2 ^ 63" using sint_lt [of w] by simp
  then have "sint w < 2 ^ 64" by simp
  with assms have "take_bit 64 (sint w) = sint w" by (simp add: take_bit_int_eq_self)
  then show ?thesis using uint_sint [of w] by simp
qed

text \<open>
  C6: the timestamp of the record is the \<^verbatim>\<open>int64\<close> of \<^verbatim>\<open>UnixNano\<close>, the epoch time in
  nanoseconds, converted to \<^verbatim>\<open>uint64\<close> and divided by 1,000,000. For every such
  \<^verbatim>\<open>int64\<close> that is not negative this is the epoch time in nanoseconds divided by
  1,000,000, rounded down. The message of the record is the string given.
\<close>

theorem log_timestamp_unsigned:
  assumes "FromContext ctx = Some txn"
  shows "log l env ctx msg tr =
           (case send l env ctx [logData txn (unixNano env) msg] tr of
              (Some err, tr1) \<Rightarrow> Printf (''! error='' @ err) tr1
            | (None, tr1) \<Rightarrow> tr1)
       \<and> (\<exists>t. map_of (logData txn (unixNano env) msg) KeyTimestamp = Some (VUint64 t)
              \<and> uint t = uint (unixNano env) div 1000000
              \<and> (0 \<le> sint (unixNano env) \<longrightarrow> uint t = sint (unixNano env) div 1000000))
       \<and> map_of (logData txn (unixNano env) msg) KeyMessage = Some (VString msg)"
  using assms
  by (simp add: log_def logData_timestamp logData_message uint_div_million sint_nonneg_uint)

theorem log_timestamp_unsigned_witness:
  "FromContext (Ctx (Some exampleTxn)) = Some exampleTxn
   \<and> 0 \<le> sint (unixNano exampleEnv)
   \<and> (\<exists>t. map_of (logData exampleTxn (unixNano exampleEnv) ''done'') KeyTimestamp
            = Some (VUint64 t)
          \<and> uint t = 1700000000123)
   \<and> map_of (logData exampleTxn (unixNano exampleEnv) ''done'') KeyMessage
       = Some (VString ''done'')"
proof -
  have 1: "FromContext (Ctx (Some exampleTxn)) = Some exampleTxn" by simp
  have 2: "sint (unixNano exampleEnv) = 1700000000123456789" by (simp add: exampleEnv_def)
  show ?thesis
    using log_timestamp_unsigned [OF 1, of "\<lparr>apiKey = ''key''\<rparr>" exampleEnv "''done''" "[]"] 2
    by auto
qed




subsection \<open>The middleware\<close>

lemma openTransactions_snoc:
  "openTransactions (tr @ [e]) = noteTransaction (openTransactions tr) e"
  by (simp add: openTransactions_def)

lemma openTransactions_started:
  "openTransactions (tr @ [StartedTransaction txn, SetWebRequest txn, SetWebResponse txn])
     = txn # openTransactions tr"
  by (simp add: openTransactions_def)

text \<open>
  C7: the middleware starts a transaction named by the method, a space and the path of
  the request, and the handler it wraps runs after that, on a request whose context holds
  this transaction. Whatever the outcome of the handler, a return or a panic, the
  middleware ends the transaction after it, and so a handler that leaves the open
  transactions as it found them leaves, with the middleware, those of before the request.
\<close>

theorem withNewRelic_ends_transaction:
  assumes "txn = \<lparr>txnName = Method r @ '' '' @ URLPath r,
                   txnLinking = linkingMetadata app (Method r @ '' '' @ URLPath r)\<rparr>"
    and "next w (RequestWithTransactionContext r txn)
           (tr @ [StartedTransaction txn, SetWebRequest txn, SetWebResponse txn])
         = (out, w1, tr1)"
  shows "withNewRelic app next w r tr = (out, w1, tr1 @ [EndedTransaction txn])
       \<and> FromContext (RequestContext (RequestWithTransactionContext r txn)) = Some txn
       \<and> (openTransactions tr1
            = openTransactions
                (tr @ [StartedTransaction txn, SetWebRequest txn, SetWebResponse txn])
          \<longrightarrow> openTransactions (tr1 @ [EndedTransaction txn]) = openTransactions tr)"
proof -
  have "withNewRelic app next w r tr = (out, w1, tr1 @ [EndedTransaction txn])"
    using assms
    by (simp add: withNewRelic_def StartTransaction_def SetWebRequestHTTP_def
        SetWebResponseWriter_def End_def Let_def)
  moreover have "FromContext (RequestContext (RequestWithTransactionContext r txn)) = Some txn"
    by (simp add: RequestContext_def RequestWithTransactionContext_def)
  moreover have "openTransactions (tr1 @ [EndedTransaction txn]) = openTransactions tr"
    if "openTransactions tr1
          = openTransactions
              (tr @ [StartedTransaction txn, SetWebRequest txn, SetWebResponse txn])"
    using that by (simp add: openTransactions_snoc openTransactions_started)
  ultimately show ?thesis by blast
qed

theorem withNewRelic_ends_transaction_witness:
  "rootTxn = \<lparr>txnName = Method rootRequest @ '' '' @ URLPath rootRequest,
               txnLinking = linkingMetadata exampleApp
                 (Method rootRequest @ '' '' @ URLPath rootRequest)\<rparr>
   \<and> panickingHandler newResponseWriter (RequestWithTransactionContext rootRequest rootTxn)
         ([] @ [StartedTransaction rootTxn, SetWebRequest rootTxn, SetWebResponse rootTxn])
       = (Panicked ''runtime error: index out of range'', newResponseWriter,
          [StartedTransaction rootTxn, SetWebRequest rootTxn, SetWebResponse rootTxn])
   \<and> withNewRelic exampleApp panickingHandler newResponseWriter rootRequest []
       = (Panicked ''runtime error: index out of range'', newResponseWriter,
          [StartedTransaction rootTxn, SetWebRequest rootTxn, SetWebResponse rootTxn,
           EndedTransaction rootTxn])
   \<and> openTransactions
         [StartedTransaction rootTxn, SetWebRequest rootTxn, SetWebResponse rootTxn,
          EndedTransaction rootTxn] = []"
proof -
  have 1: "rootTxn = \<lparr>txnName = Method rootRequest @ '' '' @ URLPath rootRequest,
               txnLinking = linkingMetadata exampleApp
                 (Method rootRequest @ '' '' @ URLPath rootRequest)\<rparr>"
    by (simp add: rootTxn_def rootRequest_def exampleApp_def)
  have 2: "panickingHandler newResponseWriter (RequestWithTransactionContext rootRequest rootTxn)
         ([] @ [StartedTransaction rootTxn, SetWebRequest rootTxn, SetWebResponse rootTxn])
       = (Panicked ''runtime error: index out of range'', newResponseWriter,
          [StartedTransaction rootTxn, SetWebRequest rootTxn, SetWebResponse rootTxn])"
    by (simp add: panickingHandler_def)
  have 3: "openTransactions [] = []" by (simp add: openTransactions_def)
  show ?thesis
    using withNewRelic_ends_transaction
        [of rootTxn rootRequest exampleApp panickingHandler newResponseWriter "[]", OF 1 2]
      1 2 3
    by simp
qed

subsection \<open>The handlers\<close>

text \<open>
  C9: the handler of \<^verbatim>\<open>/\<close> answers a fresh response writer with status 200 and the
  three bytes \<^verbatim>\<open>O\<close>, \<^verbatim>\<open>K\<close> and newline, and adds nothing else to the trace: no client
  is called. Behind the middleware the trace has the transaction around the same two
  writes.
\<close>

theorem root_ok:
  "rootHandler newResponseWriter r tr
     = (Returned,
        \<lparr>rwHeader = [], rwStatus = Some 200, rwBody = [CHR ''O'', CHR ''K'', CHR 0x0A]\<rparr>,
        tr @ [WroteHeader 200, Wrote [CHR ''O'', CHR ''K'', CHR 0x0A]])
   \<and> (let txn = \<lparr>txnName = Method r @ '' '' @ URLPath r,
                  txnLinking = linkingMetadata app (Method r @ '' '' @ URLPath r)\<rparr>
      in withNewRelic app rootHandler newResponseWriter r tr
           = (Returned,
              \<lparr>rwHeader = [], rwStatus = Some 200,
               rwBody = [CHR ''O'', CHR ''K'', CHR 0x0A]\<rparr>,
              tr @ [StartedTransaction txn, SetWebRequest txn, SetWebResponse txn,
                    WroteHeader 200, Wrote [CHR ''O'', CHR ''K'', CHR 0x0A],
                    EndedTransaction txn]))"
  by (simp add: rootHandler_def Fprintln_def Write_def WriteHeader_def newResponseWriter_def
      newline_def withNewRelic_def StartTransaction_def SetWebRequestHTTP_def
      SetWebResponseWriter_def End_def Let_def)

text \<open>
  C3: when the fetch gets a response, of whatever status, the handler of \<^verbatim>\<open>/fetch\<close>
  returns with status 200 and the body \<^verbatim>\<open>{"Status":S}\<close> and a newline, the status in
  decimal. Its trace is the fetch, then one call of \<^verbatim>\<open>log\<close> with the message
  \<^verbatim>\<open>done fetch: status=S\<close>, then the two writes of the response.
\<close>

theorem fetch_success:
  assumes "roundTrip env httpClient
             \<lparr>outMethod = ''GET'', outURL = ''https://aereal.org/'', outHeader = [],
              outBody = None, outCtx = RequestContext r\<rparr> = Inr resp"
  shows "fetchHandler cl env newResponseWriter r tr =
           (Returned,
            \<lparr>rwHeader = [(''content-type'', ''application/json'')],
             rwStatus = Some 200,
             rwBody = ''{'' @ quote @ ''Status'' @ quote @ '':'' @ showInt (StatusCode resp)
                        @ ''}'' @ newline\<rparr>,
            log cl env (RequestContext r)
                (''done fetch: status='' @ showInt (StatusCode resp))
                (tr @ [ClientDo httpClient
                         \<lparr>outMethod = ''GET'', outURL = ''https://aereal.org/'',
                          outHeader = [], outBody = None, outCtx = RequestContext r\<rparr>])
              @ [WroteHeader 200,
                 Wrote (''{'' @ quote @ ''Status'' @ quote @ '':'' @ showInt (StatusCode resp)
                          @ ''}'' @ newline)])"
proof -
  have "RequestContext r \<noteq> NilContext"
    by (simp add: RequestContext_def split: Context.splits)
  with assms show ?thesis
    by (simp add: fetchHandler_def fetchWith_def NewRequestWithContext_def Do_def
        EncodeStatus_def Write_def WriteHeader_def SetResponseHeader_def newResponseWriter_def
        Let_def)
qed

theorem fetch_success_witness:
  "roundTrip exampleEnv httpClient
     \<lparr>outMethod = ''GET'', outURL = ''https://aereal.org/'', outHeader = [],
      outBody = None, outCtx = RequestContext tracedFetchRequest\<rparr> = Inr \<lparr>StatusCode = 200\<rparr>
   \<and> fetchHandler \<lparr>apiKey = ''key''\<rparr> exampleEnv newResponseWriter tracedFetchRequest [] =
       (Returned,
        \<lparr>rwHeader = [(''content-type'', ''application/json'')],
         rwStatus = Some 200,
         rwBody = ''{'' @ quote @ ''Status'' @ quote @ '':200}'' @ newline\<rparr>,
        [ClientDo httpClient
           \<lparr>outMethod = ''GET'', outURL = ''https://aereal.org/'', outHeader = [],
            outBody = None, outCtx = Ctx (Some exampleTxn)\<rparr>,
         ClientDo DefaultClient
           \<lparr>outMethod = ''POST'',
            outURL = ''https://log-api.newrelic.com/log/v1'',
            outHeader = [(''x-license-key'', ''key''), (''content-type'', ''application/json'')],
            outBody = Some (JArray [JObject [(''logs'', JArray [JObject
               [(''message'', JString ''done fetch: status=200''),
                (''timestamp'', JNumber 1700000000123),
                (''trace.id'', JString ''4bf92f35'')]])]]),
            outCtx = Ctx (Some exampleTxn)\<rparr>,
         Printed ''post log status=403'',
         WroteHeader 200,
         Wrote (''{'' @ quote @ ''Status'' @ quote @ '':200}'' @ newline)])"
proof -
  have 1: "roundTrip exampleEnv httpClient
     \<lparr>outMethod = ''GET'', outURL = ''https://aereal.org/'', outHeader = [],
      outBody = None, outCtx = RequestContext tracedFetchRequest\<rparr> = Inr \<lparr>StatusCode = 200\<rparr>"
    by (simp add: exampleEnv_def)
  have 2: "showInt 200 = ''200''" by code_simp
  have 3: "RequestContext tracedFetchRequest = Ctx (Some exampleTxn)"
    by (simp add: RequestContext_def tracedFetchRequest_def RequestWithTransactionContext_def)
  have 4: "log \<lparr>apiKey = ''key''\<rparr> exampleEnv (Ctx (Some exampleTxn)) ''done fetch: status=200''
        [ClientDo httpClient
           \<lparr>outMethod = ''GET'', outURL = ''https://aereal.org/'', outHeader = [],
            outBody = None, outCtx = Ctx (Some exampleTxn)\<rparr>]
     = [ClientDo httpClient
           \<lparr>outMethod = ''GET'', outURL = ''https://aereal.org/'', outHeader = [],
            outBody = None, outCtx = Ctx (Some exampleTxn)\<rparr>,
         ClientDo DefaultClient
           \<lparr>outMethod = ''POST'',
            outURL = ''https://log-api.newrelic.com/log/v1'',
            outHeader = [(''x-license-key'', ''key''), (''content-type'', ''application/json'')],
            outBody = Some (JArray [JObject [(''logs'', JArray [JObject
               [(''message'', JString ''done fetch: status=200''),
                (''timestamp'', JNumber 1700000000123),
                (''trace.id'', JString ''4bf92f35'')]])]]),
            outCtx = Ctx (Some exampleTxn)\<rparr>,
         Printed ''post log status=403'']"
    by code_simp
  show ?thesis
    using fetch_success [OF 1, of "\<lparr>apiKey = ''key''\<rparr>" "[]"] 1
    by (simp add: 2 3 4)
qed

text \<open>The same request through the middleware, evaluated.\<close>

lemma fetch_route_example:
  "withNewRelic exampleApp (fetchHandler \<lparr>apiKey = ''key''\<rparr> exampleEnv) newResponseWriter
       fetchRequest []
     = (Returned,
        \<lparr>rwHeader = [(''content-type'', ''application/json'')],
         rwStatus = Some 200,
         rwBody = ''{'' @ quote @ ''Status'' @ quote @ '':200}'' @ newline\<rparr>,
        [StartedTransaction exampleTxn, SetWebRequest exampleTxn, SetWebResponse exampleTxn,
         ClientDo httpClient
           \<lparr>outMethod = ''GET'', outURL = ''https://aereal.org/'', outHeader = [],
            outBody = None, outCtx = Ctx (Some exampleTxn)\<rparr>,
         ClientDo DefaultClient
           \<lparr>outMethod = ''POST'',
            outURL = ''https://log-api.newrelic.com/log/v1'',
            outHeader = [(''x-license-key'', ''key''), (''content-type'', ''application/json'')],
            outBody = Some (JArray [JObject [(''logs'', JArray [JObject
               [(''message'', JString ''done fetch: status=200''),
                (''timestamp'', JNumber 1700000000123),
                (''trace.id'', JString ''4bf92f35'')]])]]),
            outCtx = Ctx (Some exampleTxn)\<rparr>,
         Printed ''post log status=403'',
         WroteHeader 200,
         Wrote (''{'' @ quote @ ''Status'' @ quote @ '':200}'' @ newline),
         EndedTransaction exampleTxn])"
  by code_simp

text \<open>
  C4: when the request of the fetch cannot be built, or its round trip fails, lines 57
  to 69 answer with status 500 and a plain-text body, the diagnostic and a newline. The
  trace gets the fetch, if it was tried, and the two writes of the response: no call of
  the default client, so no POST to the log API. The handler of \<^verbatim>\<open>/fetch\<close> runs these
  lines with the context of its request, and so answers the same.
\<close>

theorem fetch_failure:
  assumes "NewRequestWithContext ctx ''GET'' ''https://aereal.org/'' None = Inl err
             \<and> calls = [] \<and> diagnostic = ''cannot build request: '' @ err
           \<or> NewRequestWithContext ctx ''GET'' ''https://aereal.org/'' None = Inr req
             \<and> roundTrip env httpClient req = Inl err
             \<and> calls = [ClientDo httpClient req]
             \<and> diagnostic = ''failed to send request: '' @ err"
  shows "fetchWith cl env ctx newResponseWriter tr =
           (\<lparr>rwHeader = [(''Content-Type'', ''text/plain; charset=utf-8''),
                         (''X-Content-Type-Options'', ''nosniff'')],
             rwStatus = Some 500,
             rwBody = diagnostic @ newline\<rparr>,
            tr @ calls @ [WroteHeader 500, Wrote (diagnostic @ newline)])
       \<and> (ctx = RequestContext r \<longrightarrow>
            fetchHandler cl env newResponseWriter r tr =
              (Returned,
               \<lparr>rwHeader = [(''Content-Type'', ''text/plain; charset=utf-8''),
                            (''X-Content-Type-Options'', ''nosniff'')],
                rwStatus = Some 500,
                rwBody = diagnostic @ newline\<rparr>,
               tr @ calls @ [WroteHeader 500, Wrote (diagnostic @ newline)]))"
proof -
  have body: "fetchWith cl env ctx newResponseWriter tr =
           (\<lparr>rwHeader = [(''Content-Type'', ''text/plain; charset=utf-8''),
                         (''X-Content-Type-Options'', ''nosniff'')],
             rwStatus = Some 500,
             rwBody = diagnostic @ newline\<rparr>,
            tr @ calls @ [WroteHeader 500, Wrote (diagnostic @ newline)])"
    using assms
    by (auto simp: fetchWith_def Do_def Error_def Fprintln_def Write_def WriteHeader_def
        SetResponseHeader_def newResponseWriter_def Let_def)
  then show ?thesis by (auto simp: fetchHandler_def)
qed

theorem fetch_failure_witness:
  "NewRequestWithContext (RequestContext tracedFetchRequest) ''GET'' ''https://aereal.org/'' None
     = Inr \<lparr>outMethod = ''GET'', outURL = ''https://aereal.org/'', outHeader = [],
            outBody = None, outCtx = Ctx (Some exampleTxn)\<rparr>
   \<and> roundTrip downEnv httpClient
        \<lparr>outMethod = ''GET'', outURL = ''https://aereal.org/'', outHeader = [],
         outBody = None, outCtx = Ctx (Some exampleTxn)\<rparr> = Inl ''dial tcp: i/o timeout''
   \<and> fetchHandler \<lparr>apiKey = ''key''\<rparr> downEnv newResponseWriter tracedFetchRequest [] =
       (Returned,
        \<lparr>rwHeader = [(''Content-Type'', ''text/plain; charset=utf-8''),
                     (''X-Content-Type-Options'', ''nosniff'')],
         rwStatus = Some 500,
         rwBody = ''failed to send request: dial tcp: i/o timeout'' @ newline\<rparr>,
        [ClientDo httpClient
           \<lparr>outMethod = ''GET'', outURL = ''https://aereal.org/'', outHeader = [],
            outBody = None, outCtx = Ctx (Some exampleTxn)\<rparr>,
         WroteHeader 500,
         Wrote (''failed to send request: dial tcp: i/o timeout'' @ newline)])
   \<and> NewRequestWithContext NilContext ''GET'' ''https://aereal.org/'' None
       = Inl ''net/http: nil Context''
   \<and> fetchWith \<lparr>apiKey = ''key''\<rparr> exampleEnv NilContext newResponseWriter [] =
       (\<lparr>rwHeader = [(''Content-Type'', ''text/plain; charset=utf-8''),
                     (''X-Content-Type-Options'', ''nosniff'')],
         rwStatus = Some 500,
         rwBody = ''cannot build request: net/http: nil Context'' @ newline\<rparr>,
        [WroteHeader 500,
         Wrote (''cannot build request: net/http: nil Context'' @ newline)])"
proof -
  let ?req = "\<lparr>outMethod = ''GET'', outURL = ''https://aereal.org/'', outHeader = [],
            outBody = None, outCtx = Ctx (Some exampleTxn)\<rparr>"
  have 0: "RequestContext tracedFetchRequest = Ctx (Some exampleTxn)"
    by (simp add: RequestContext_def tracedFetchRequest_def RequestWithTransactionContext_def)
  have 1: "NewRequestWithContext (Ctx (Some exampleTxn)) ''GET'' ''https://aereal.org/'' None
     = Inr ?req"
    by (simp add: NewRequestWithContext_def)
  have 2: "roundTrip downEnv httpClient ?req = Inl ''dial tcp: i/o timeout''"
    by (simp add: downEnv_def)
  have 3: "NewRequestWithContext NilContext ''GET'' ''https://aereal.org/'' None
       = Inl ''net/http: nil Context''"
    by (simp add: NewRequestWithContext_def)
  show ?thesis
    using fetch_failure [of "Ctx (Some exampleTxn)" "''dial tcp: i/o timeout''"
        "[ClientDo httpClient ?req]" "''failed to send request: dial tcp: i/o timeout''"
        ?req downEnv "\<lparr>apiKey = ''key''\<rparr>" "[]" tracedFetchRequest]
      fetch_failure [of NilContext "''net/http: nil Context''" "[]"
        "''cannot build request: net/http: nil Context''" ?req exampleEnv
        "\<lparr>apiKey = ''key''\<rparr>" "[]" tracedFetchRequest]
      0 1 2 3
    by simp
qed

text \<open>
  From a request the first of the two cases does not arise: \<^verbatim>\<open>r.Context()\<close> is never
  nil, so the request of the fetch is always built.
\<close>

lemma fetch_request_built:
  "NewRequestWithContext (RequestContext r) ''GET'' ''https://aereal.org/'' None
     = Inr \<lparr>outMethod = ''GET'', outURL = ''https://aereal.org/'', outHeader = [],
            outBody = None, outCtx = RequestContext r\<rparr>"
  by (simp add: NewRequestWithContext_def RequestContext_def split: Context.splits)

subsection \<open>Start-up\<close>

text \<open>
  C8: when the variable \<^verbatim>\<open>NEWRELIC_LICENSE_KEY\<close> is not set, \<^verbatim>\<open>main\<close> prints
  \<^verbatim>\<open>NEWRELIC_LICENSE_KEY required\<close> and exits with status 1; the trace gets this line
  only, so no listener was opened.
\<close>

theorem main_without_license:
  assumes "environ env ''NEWRELIC_LICENSE_KEY'' = None"
  shows "main env tr = (Done 1, tr @ [Printed ''NEWRELIC_LICENSE_KEY required''])"
  using assms by (simp add: main_def run_def Getenv_def Printf_def)

theorem main_without_license_witness:
  "environ exampleEnv ''NEWRELIC_LICENSE_KEY'' = None
   \<and> main exampleEnv [] = (Done 1, [Printed ''NEWRELIC_LICENSE_KEY required''])"
proof -
  have 1: "environ exampleEnv ''NEWRELIC_LICENSE_KEY'' = None" by (simp add: exampleEnv_def)
  show ?thesis using main_without_license [OF 1, of "[]"] 1 by simp
qed

text \<open>With the variable set, the same environment starts the server.\<close>

lemma main_with_license:
  "main (exampleEnv\<lparr>environ := [''NEWRELIC_LICENSE_KEY'' \<mapsto> ''key'']\<rparr>) []
     = (Forever, [Printed ''start server'', Listening '':8000''])"
  by (simp add: main_def run_def Getenv_def Printf_def ListenAndServe_def exampleEnv_def)


end
